theory Spec2Isabelle
  imports Complex_Main "HOL-Library.AList" "HOL-Library.Sublist"
begin

section \<open>Python values that cross the file boundary\<close>

text \<open>
  \<^verbatim>\<open>json.load\<close> hands the program a Python value built of \<^verbatim>\<open>None\<close>, \<^verbatim>\<open>bool\<close>,
  \<^verbatim>\<open>int\<close>, \<^verbatim>\<open>float\<close>, \<^verbatim>\<open>str\<close>, \<^verbatim>\<open>list\<close> and \<^verbatim>\<open>dict\<close> (with \<^verbatim>\<open>str\<close> keys).
  The program stores these values in its objects without checking their type, so the
  fields of a menu item or an order read from a file hold such values.
  \<open>JFloat q\<close> stands for the finite double whose exact value is \<open>q\<close>, \<open>JNonFinite\<close>
  for the floats that \<^verbatim>\<open>json.load\<close> makes of \<^verbatim>\<open>NaN\<close>, \<^verbatim>\<open>Infinity\<close> and
  \<^verbatim>\<open>-Infinity\<close>. A \<^verbatim>\<open>dict\<close> is an association list looked up by key.

  A \<^verbatim>\<open>str\<close> is the list of its code points. \<^verbatim>\<open>json.load\<close> turns the escape
  \<^verbatim>\<open>\ud83d\<close> into a string of the one code point 55357, a lone surrogate, which UTF-8
  cannot encode. \<open>ascii\<close> gives the \<^verbatim>\<open>str\<close> of an ASCII literal.
\<close>

type_synonym pystr = "nat list"

definition ascii :: "string \<Rightarrow> pystr" where
  "ascii s = map of_char s"

datatype nonfinite = NaN | PosInf | NegInf

datatype json =
    JNull
  | JBool bool
  | JInt int
  | JFloat rat
  | JNonFinite nonfinite
  | JStr pystr
  | JArr "json list"
  | JObj "(pystr \<times> json) list"

text \<open>
  The exceptions the modelled code can raise. \<open>OSError\<close> stands for the failures of the
  operating system other than a missing file (\<^verbatim>\<open>IsADirectoryError\<close>,
  \<^verbatim>\<open>PermissionError\<close>, a full disk).
\<close>

datatype exn =
    KeyError pystr
  | TypeError
  | ValueError
  | UnicodeDecodeError
  | UnicodeEncodeError
  | RecursionError
  | OSError

text \<open>
  What \<^verbatim>\<open>open(filename, "r", encoding="utf-8")\<close> followed by \<^verbatim>\<open>json.load(file)\<close>
  produces: \<^verbatim>\<open>FileNotFoundError\<close>; \<^verbatim>\<open>json.JSONDecodeError\<close>, for text that the parser
  rejects; any other exception (\<^verbatim>\<open>UnicodeDecodeError\<close> for bytes that are not UTF-8,
  \<^verbatim>\<open>RecursionError\<close> for nesting too deep, \<^verbatim>\<open>ValueError\<close> for an integer literal
  with too many digits, \<^verbatim>\<open>OSError\<close> for a directory or a file that may not be
  read); or the decoded document. The program catches the first two only.
\<close>

datatype source = FileNotFound | DecodeError | Raises exn | Parsed json

text \<open>
  \<^verbatim>\<open>for x in v\<close>: a list yields its elements, a dict its keys, a string its characters
  (one string per code point); every other value is not iterable.
\<close>

fun py_iter :: "json \<Rightarrow> exn + json list" where
  "py_iter (JArr xs) = Inr xs"
| "py_iter (JObj kvs) = Inr (map (\<lambda>kv. JStr (fst kv)) kvs)"
| "py_iter (JStr s) = Inr (map (\<lambda>c. JStr [c]) s)"
| "py_iter _ = Inl TypeError"

text \<open>
  \<^verbatim>\<open>v["key"]\<close> with a string key: a dict returns the entry or raises \<^verbatim>\<open>KeyError\<close>;
  lists and strings want integer indices, the other values are not subscriptable.
\<close>

fun py_getitem :: "json \<Rightarrow> pystr \<Rightarrow> exn + json" where
  "py_getitem (JObj kvs) k = (case map_of kvs k of None \<Rightarrow> Inl (KeyError k) | Some v \<Rightarrow> Inr v)"
| "py_getitem _ k = Inl TypeError"

text \<open>
  Keys of the \<^verbatim>\<open>orders\<close> dict. Python looks a key up by hash and equality, and
  \<^verbatim>\<open>True == 1 == 1.0\<close>: a bool or an integral float is the same key as the int.
  Lists and dicts are unhashable. \<^verbatim>\<open>json.load\<close> hands out one and the same NaN
  object, which a dict finds by identity, so NaN is a key like any other.
\<close>

datatype pykey = KInt int | KFrac rat | KNonFinite nonfinite | KStr pystr | KNone

fun hash_key :: "json \<Rightarrow> exn + pykey" where
  "hash_key JNull = Inr KNone"
| "hash_key (JBool b) = Inr (KInt (if b then 1 else 0))"
| "hash_key (JInt i) = Inr (KInt i)"
| "hash_key (JFloat q) = Inr (if q = of_int \<lfloor>q\<rfloor> then KInt \<lfloor>q\<rfloor> else KFrac q)"
| "hash_key (JNonFinite x) = Inr (KNonFinite x)"
| "hash_key (JStr s) = Inr (KStr s)"
| "hash_key (JArr xs) = Inl TypeError"
| "hash_key (JObj kvs) = Inl TypeError"

text \<open>
  \<^verbatim>\<open>available_tables.discard(v)\<close>: the set holds ints only (it starts as \<open>{1,...,5}\<close> and
  grows by \<^verbatim>\<open>cancel_order\<close> alone), so only a key equal to an int can remove a member.
\<close>

fun set_discard :: "pykey \<Rightarrow> int set \<Rightarrow> int set" where
  "set_discard (KInt i) A = A - {i}"
| "set_discard _ A = A"

section \<open>Printed messages\<close>

text \<open>
  Each \<^verbatim>\<open>print\<close> of the source is one constructor, so that the signal an operation gives
  is part of its result. The comment names the source line of the message.
\<close>

datatype msg =
    MenuLoaded                    \<comment> \<open>line 32\<close>
  | MenuFileNotFound              \<comment> \<open>line 34\<close>
  | MenuReadError                 \<comment> \<open>line 36\<close>
  | TableNotExist int             \<comment> \<open>lines 128 and 260: the table does not exist\<close>
  | TableOccupied int             \<comment> \<open>lines 132 and 258: the table is already taken\<close>
  | OrderCreated int pystr        \<comment> \<open>line 137\<close>
  | OrderNotFound int             \<comment> \<open>lines 143, 156, 165, 172: no order for the table\<close>
  | ItemAdded pystr int           \<comment> \<open>line 149\<close>
  | ItemNotInMenu pystr           \<comment> \<open>line 151: the item is not in the menu\<close>
  | ItemRemoved pystr int         \<comment> \<open>line 160: the item was removed from the order\<close>
  | OrderCancelled int            \<comment> \<open>line 177\<close>
  | AvailableTables "int list"    \<comment> \<open>line 181\<close>
  | OrdersSaved                   \<comment> \<open>line 188\<close>
  | OrdersLoaded                  \<comment> \<open>line 204\<close>
  | OrdersFileNotFound            \<comment> \<open>line 206\<close>
  | OrdersReadError               \<comment> \<open>line 208\<close>
  | TableMustBeNumber             \<comment> \<open>line 252\<close>

section \<open>MenuItem and Menu\<close>

record MenuItem =
  name :: json
  price :: json
  category :: json

text \<open>\<^verbatim>\<open>Menu.items\<close> is the only field of \<^verbatim>\<open>Menu\<close>.\<close>

type_synonym Menu = "MenuItem list"

text \<open>
  \<^verbatim>\<open>MenuItem(item["name"], item["price"], item["category"])\<close>: the three subscripts
  are evaluated left to right, the first failure is the exception raised.
\<close>

definition menu_item_of :: "json \<Rightarrow> exn + MenuItem" where
  "menu_item_of item =
     (case py_getitem item (ascii ''name'') of Inl e \<Rightarrow> Inl e | Inr n \<Rightarrow>
     (case py_getitem item (ascii ''price'') of Inl e \<Rightarrow> Inl e | Inr p \<Rightarrow>
     (case py_getitem item (ascii ''category'') of Inl e \<Rightarrow> Inl e | Inr c \<Rightarrow>
        Inr \<lparr>name = n, price = p, category = c\<rparr>)))"

text \<open>A comprehension or loop that builds one item per element and stops at the first raise.\<close>

fun menu_items_of :: "json list \<Rightarrow> exn + MenuItem list" where
  "menu_items_of [] = Inr []"
| "menu_items_of (x # xs) =
     (case menu_item_of x of Inl e \<Rightarrow> Inl e | Inr i \<Rightarrow>
     (case menu_items_of xs of Inl e \<Rightarrow> Inl e | Inr is \<Rightarrow> Inr (i # is)))"

text \<open>
  \<^verbatim>\<open>Menu.load_menu\<close> (lines 23-36). The result is the exception that reaches the caller
  (\<open>None\<close> when the call returns), the messages printed and the menu afterwards.
  \<^verbatim>\<open>self.items\<close> is assigned only once the whole comprehension has run. An exception
  of \<^verbatim>\<open>open\<close> or \<^verbatim>\<open>json.load\<close> that is not caught leaves before anything is assigned.
\<close>

definition load_menu :: "source \<Rightarrow> Menu \<Rightarrow> exn option \<times> msg list \<times> Menu" where
  "load_menu src m =
     (case src of
        FileNotFound \<Rightarrow> (None, [MenuFileNotFound], m)
      | DecodeError \<Rightarrow> (None, [MenuReadError], m)
      | Raises e \<Rightarrow> (Some e, [], m)
      | Parsed menu_data \<Rightarrow>
          (case py_iter menu_data of
             Inl e \<Rightarrow> (Some e, [], m)
           | Inr xs \<Rightarrow>
               (case menu_items_of xs of
                  Inl e \<Rightarrow> (Some e, [], m)
                | Inr is \<Rightarrow> (None, [MenuLoaded], is))))"

text \<open>\<^verbatim>\<open>Menu.get_items_by_category\<close> (line 47); the argument is a \<^verbatim>\<open>str\<close>.\<close>

definition get_items_by_category :: "pystr \<Rightarrow> Menu \<Rightarrow> MenuItem list" where
  "get_items_by_category c m = filter (\<lambda>item. category item = JStr c) m"

text \<open>
  \<^verbatim>\<open>Menu.get_item_by_name\<close> (lines 49-54): the first item whose name equals the
  argument, a \<^verbatim>\<open>str\<close>; a value that is not a string never equals it.
\<close>

fun get_item_by_name :: "pystr \<Rightarrow> Menu \<Rightarrow> MenuItem option" where
  "get_item_by_name n [] = None"
| "get_item_by_name n (item # rest) =
     (if name item = JStr n then Some item else get_item_by_name n rest)"

section \<open>Order\<close>

record Order =
  table_number :: json
  customer_name :: json
  items :: "MenuItem list"

text \<open>\<^verbatim>\<open>Order.__init__\<close> (lines 70-73).\<close>

definition new_order :: "json \<Rightarrow> json \<Rightarrow> Order" where
  "new_order t c = \<lparr>table_number = t, customer_name = c, items = []\<rparr>"

text \<open>\<^verbatim>\<open>Order.add_item\<close> (line 77).\<close>

definition add_item :: "MenuItem \<Rightarrow> Order \<Rightarrow> Order" where
  "add_item item ord = ord\<lparr>items := items ord @ [item]\<rparr>"

text \<open>\<^verbatim>\<open>Order.remove_item\<close> (line 81); the argument is a \<^verbatim>\<open>str\<close>.\<close>

definition remove_item :: "pystr \<Rightarrow> Order \<Rightarrow> Order" where
  "remove_item item_name ord =
     ord\<lparr>items := filter (\<lambda>item. name item \<noteq> JStr item_name) (items ord)\<rparr>"


text \<open>\<^verbatim>\<open>Order.clear_order\<close> (line 99).\<close>

definition clear_order :: "Order \<Rightarrow> Order" where
  "clear_order ord = ord\<lparr>items := []\<rparr>"

text \<open>\<^verbatim>\<open>Order.to_dict\<close> (lines 101-107).\<close>

definition item_to_dict :: "MenuItem \<Rightarrow> json" where
  "item_to_dict item =
     JObj [(ascii ''name'', name item), (ascii ''price'', price item), (ascii ''category'', category item)]"

definition to_dict :: "Order \<Rightarrow> json" where
  "to_dict ord =
     JObj [(ascii ''table_number'', table_number ord),
           (ascii ''customer_name'', customer_name ord),
           (ascii ''items'', JArr (map item_to_dict (items ord)))]"

section \<open>Restaurant\<close>

text \<open>
  \<^verbatim>\<open>orders\<close> is a Python dict: insertion-ordered, one entry per key. It is an
  association list; \<open>AList.update\<close> overwrites the entry of a key in place or appends a
  new one, \<open>AList.delete\<close> removes the key, as assignment and \<^verbatim>\<open>del\<close> do.
  Every \<^verbatim>\<open>Order\<close> object is held by the dict alone, and menu items are never
  mutated, so values can stand for the objects.
\<close>

record Restaurant =
  menu :: Menu
  orders :: "(pykey \<times> Order) list"
  available_tables :: "int set"

text \<open>\<^verbatim>\<open>Restaurant.__init__\<close> (lines 113-116).\<close>

definition Restaurant_init :: Restaurant where
  "Restaurant_init = \<lparr>menu = [], orders = [], available_tables = {1, 2, 3, 4, 5}\<rparr>"

text \<open>The table numbers of the reference configuration (line 116).\<close>

definition universe :: "int set" where
  "universe = {1, 2, 3, 4, 5}"

text \<open>\<^verbatim>\<open>Restaurant.load_menu\<close> (lines 118-120).\<close>

definition restaurant_load_menu :: "source \<Rightarrow> Restaurant \<Rightarrow> exn option \<times> msg list \<times> Restaurant" where
  "restaurant_load_menu src s =
     (case load_menu src (menu s) of (e, out, m) \<Rightarrow> (e, out, s\<lparr>menu := m\<rparr>))"

text \<open>
  \<^verbatim>\<open>Restaurant.create_order\<close> (lines 122-138): the returned bool, the messages and the
  state afterwards. \<^verbatim>\<open>set.remove\<close> cannot raise here, the first test has passed.
\<close>

definition create_order :: "int \<Rightarrow> pystr \<Rightarrow> Restaurant \<Rightarrow> bool \<times> msg list \<times> Restaurant" where
  "create_order t c s =
     (if t \<notin> available_tables s then (False, [TableNotExist t], s)
      else if map_of (orders s) (KInt t) \<noteq> None then (False, [TableOccupied t], s)
      else (True, [OrderCreated t c],
            s\<lparr>orders := AList.update (KInt t) (new_order (JInt t) (JStr c)) (orders s),
              available_tables := available_tables s - {t}\<rparr>))"

text \<open>
  \<^verbatim>\<open>Restaurant.add_to_order\<close> (lines 140-151). A \<^verbatim>\<open>MenuItem\<close> object is always truthy,
  so \<^verbatim>\<open>if item:\<close> tests for \<^verbatim>\<open>None\<close>.
\<close>

definition add_to_order :: "int \<Rightarrow> pystr \<Rightarrow> Restaurant \<Rightarrow> msg list \<times> Restaurant" where
  "add_to_order t item_name s =
     (case map_of (orders s) (KInt t) of
        None \<Rightarrow> ([OrderNotFound t], s)
      | Some ord \<Rightarrow>
          (case get_item_by_name item_name (menu s) of
             Some item \<Rightarrow>
               ([ItemAdded item_name t],
                s\<lparr>orders := AList.update (KInt t) (add_item item ord) (orders s)\<rparr>)
           | None \<Rightarrow> ([ItemNotInMenu item_name], s)))"

text \<open>\<^verbatim>\<open>Restaurant.remove_from_order\<close> (lines 153-160).\<close>

definition remove_from_order :: "int \<Rightarrow> pystr \<Rightarrow> Restaurant \<Rightarrow> msg list \<times> Restaurant" where
  "remove_from_order t item_name s =
     (case map_of (orders s) (KInt t) of
        None \<Rightarrow> ([OrderNotFound t], s)
      | Some ord \<Rightarrow>
          ([ItemRemoved item_name t],
           s\<lparr>orders := AList.update (KInt t) (remove_item item_name ord) (orders s)\<rparr>))"

text \<open>
  \<^verbatim>\<open>Restaurant.cancel_order\<close> (lines 169-177): the order is cleared, then deleted from
  the dict, and the table joins \<^verbatim>\<open>available_tables\<close>.
\<close>

definition cancel_order :: "int \<Rightarrow> Restaurant \<Rightarrow> msg list \<times> Restaurant" where
  "cancel_order t s =
     (case map_of (orders s) (KInt t) of
        None \<Rightarrow> ([OrderNotFound t], s)
      | Some ord \<Rightarrow>
          ([OrderCancelled t],
           s\<lparr>orders := AList.delete (KInt t) (AList.update (KInt t) (clear_order ord) (orders s)),
             available_tables := insert t (available_tables s)\<rparr>))"

text \<open>\<^verbatim>\<open>Restaurant.show_available_tables\<close> (line 181).\<close>

definition show_available_tables :: "Restaurant \<Rightarrow> msg list" where
  "show_available_tables s = [AvailableTables (sorted_list_of_set (available_tables s))]"

text \<open>
  What the UTF-8 file of line 186 can take: a string with a lone surrogate (a code point
  from 55296 to 57343) raises \<^verbatim>\<open>UnicodeEncodeError\<close> when it is written, be it a value
  or a key, at any depth.
\<close>

definition encodable_str :: "pystr \<Rightarrow> bool" where
  "encodable_str s = list_all (\<lambda>c. c < 55296 \<or> 57343 < c) s"

fun encodable :: "json \<Rightarrow> bool" where
  "encodable (JStr s) = encodable_str s"
| "encodable (JArr xs) = list_all encodable xs"
| "encodable (JObj kvs) = list_all (\<lambda>kv. encodable_str (fst kv) \<and> encodable (snd kv)) kvs"
| "encodable _ = True"

text \<open>The value of \<^verbatim>\<open>orders_data\<close> at line 185.\<close>

definition orders_document :: "Restaurant \<Rightarrow> json" where
  "orders_document s = JArr (map (\<lambda>kv. to_dict (snd kv)) (orders s))"

text \<open>
  \<^verbatim>\<open>Restaurant.save_orders\<close> (lines 183-188). \<open>fault\<close> is the failure, if any, that the
  operating system (\<^verbatim>\<open>OSError\<close>) or the interpreter's recursion limit
  (\<^verbatim>\<open>RecursionError\<close>) puts in the way of this write. The result is the exception that
  reaches the caller, the messages, and the document the file holds when the write was
  completed; after a failure the file holds at most a truncated text, which is
  \<open>None\<close>. Nothing is caught, and the state is not touched.
\<close>

definition save_orders :: "exn option \<Rightarrow> Restaurant \<Rightarrow> exn option \<times> msg list \<times> json option" where
  "save_orders fault s =
     (case fault of
        Some e \<Rightarrow> (Some e, [], None)
      | None \<Rightarrow>
          if encodable (orders_document s) then (None, [OrdersSaved], Some (orders_document s))
          else (Some UnicodeEncodeError, [], None))"

text \<open>
  The body of the loop of \<^verbatim>\<open>load_orders\<close> up to the assignment (lines 196-202): the
  order built from one record and its key in the dict. Nothing is stored before the
  order is complete; an unhashable table number raises at the assignment.
\<close>

definition order_of_record :: "json \<Rightarrow> exn + pykey \<times> Order" where
  "order_of_record order_data =
     (case py_getitem order_data (ascii ''table_number'') of Inl e \<Rightarrow> Inl e | Inr t \<Rightarrow>
     (case py_getitem order_data (ascii ''customer_name'') of Inl e \<Rightarrow> Inl e | Inr c \<Rightarrow>
     (case py_getitem order_data (ascii ''items'') of Inl e \<Rightarrow> Inl e | Inr its \<Rightarrow>
     (case py_iter its of Inl e \<Rightarrow> Inl e | Inr xs \<Rightarrow>
     (case menu_items_of xs of Inl e \<Rightarrow> Inl e | Inr is \<Rightarrow>
     (case hash_key t of Inl e \<Rightarrow> Inl e | Inr k \<Rightarrow>
        Inr (k, \<lparr>table_number = t, customer_name = c, items = is\<rparr>)))))))"

text \<open>
  The loop of lines 195-203. A record that raises ends the loop; the records before it
  stay loaded.
\<close>

fun load_orders_loop :: "json list \<Rightarrow> Restaurant \<Rightarrow> exn option \<times> Restaurant" where
  "load_orders_loop [] s = (None, s)"
| "load_orders_loop (order_data # rest) s =
     (case order_of_record order_data of
        Inl e \<Rightarrow> (Some e, s)
      | Inr (k, ord) \<Rightarrow>
          load_orders_loop rest
            (s\<lparr>orders := AList.update k ord (orders s),
              available_tables := set_discard k (available_tables s)\<rparr>))"

text \<open>\<^verbatim>\<open>Restaurant.load_orders\<close> (lines 190-208).\<close>

definition load_orders :: "source \<Rightarrow> Restaurant \<Rightarrow> exn option \<times> msg list \<times> Restaurant" where
  "load_orders src s =
     (case src of
        FileNotFound \<Rightarrow> (None, [OrdersFileNotFound], s)
      | DecodeError \<Rightarrow> (None, [OrdersReadError], s)
      | Raises e \<Rightarrow> (Some e, [], s)
      | Parsed orders_data \<Rightarrow>
          (case py_iter orders_data of
             Inl e \<Rightarrow> (Some e, [], s)
           | Inr recs \<Rightarrow>
               (case load_orders_loop recs s of
                  (Some e, s') \<Rightarrow> (Some e, [], s')
                | (None, s') \<Rightarrow> (None, [OrdersLoaded], s'))))"

section \<open>The command surface: where a table number is read\<close>

text \<open>
  \<^verbatim>\<open>int(text)\<close> on text of code points below 256, a \<open>char\<close> standing for its code
  point: white space around the number (tab, line feed, vertical tab, form feed,
  carriage return, space, next line, no-break space) is dropped, a sign may lead, and
  the decimal digits may be separated by single underscores. More than 4300 digits are
  refused (the default limit of CPython 3.11). \<open>None\<close> is \<^verbatim>\<open>ValueError\<close>. Text with
  code points from 256 on is not modelled.
\<close>

definition is_py_space :: "char \<Rightarrow> bool" where
  "is_py_space c =
     (let n = (of_char c :: nat) in (9 \<le> n \<and> n \<le> 13) \<or> n = 32 \<or> n = 133 \<or> n = 160)"

definition py_strip :: "string \<Rightarrow> string" where
  "py_strip s = rev (dropWhile is_py_space (rev (dropWhile is_py_space s)))"

definition digit_of :: "char \<Rightarrow> nat option" where
  "digit_of c = (let n = (of_char c :: nat) in if 48 \<le> n \<and> n \<le> 57 then Some (n - 48) else None)"

text \<open>
  The digits after the sign: \<open>after_digit\<close> tells whether the previous character was a
  digit, which an underscore and the end of the text both need.
\<close>

fun scan_digits :: "bool \<Rightarrow> nat \<Rightarrow> string \<Rightarrow> nat option" where
  "scan_digits after_digit acc [] = (if after_digit then Some acc else None)"
| "scan_digits after_digit acc (c # cs) =
     (case digit_of c of
        Some d \<Rightarrow> scan_digits True (10 * acc + d) cs
      | None \<Rightarrow> if c = CHR ''_'' \<and> after_digit then scan_digits False acc cs else None)"

definition max_str_digits :: nat where
  "max_str_digits = 4300"

definition py_int :: "string \<Rightarrow> int option" where
  "py_int s =
     (if max_str_digits < length (filter (\<lambda>c. digit_of c \<noteq> None) s) then None
      else
        (case py_strip s of
           [] \<Rightarrow> None
         | c # cs \<Rightarrow>
             if c = CHR ''-'' then map_option (\<lambda>n. - int n) (scan_digits False 0 cs)
             else if c = CHR ''+'' then map_option int (scan_digits False 0 cs)
             else map_option int (scan_digits False 0 (c # cs))))"

text \<open>
  \<^verbatim>\<open>order_creation_wizard\<close>, lines 246-261: the wizard shows the free tables, reads the
  table number inside \<^verbatim>\<open>try ... except ValueError\<close> and checks it. The argument is the
  line typed; the result is the messages and the table the wizard goes on with, or
  \<open>None\<close> when it returns at this point. The state is not touched here.
\<close>

definition wizard_read_table :: "string \<Rightarrow> Restaurant \<Rightarrow> msg list \<times> int option" where
  "wizard_read_table typed s =
     (case py_int typed of
        None \<Rightarrow> (show_available_tables s @ [TableMustBeNumber], None)
      | Some t \<Rightarrow>
          if t \<notin> available_tables s then
            (if map_of (orders s) (KInt t) \<noteq> None
             then (show_available_tables s @ [TableOccupied t], None)
             else (show_available_tables s @ [TableNotExist t], None))
          else (show_available_tables s, Some t))"

text \<open>
  \<^verbatim>\<open>main\<close>, choice 4 (lines 317-320): \<^verbatim>\<open>int(input(...))\<close> stands outside any
  \<^verbatim>\<open>try\<close>, so its \<^verbatim>\<open>ValueError\<close> leaves \<^verbatim>\<open>main\<close>, as does an exception of
  \<^verbatim>\<open>save_orders\<close>. \<open>fault\<close> is handed to \<^verbatim>\<open>save_orders\<close>. The result is the exception
  that ends the program (\<open>None\<close> when the loop goes on), the messages, the state and the
  document written to the orders file, if any. Choice 3 (lines 313-315) reads its table
  number the same way.
\<close>

definition main_choice_4 ::
  "exn option \<Rightarrow> string \<Rightarrow> Restaurant \<Rightarrow> exn option \<times> msg list \<times> Restaurant \<times> json option" where
  "main_choice_4 fault typed s =
     (case py_int typed of
        None \<Rightarrow> (Some ValueError, [], s, None)
      | Some t \<Rightarrow>
          (case cancel_order t s of (out1, s') \<Rightarrow>
          (case save_orders fault s' of (e, out2, written) \<Rightarrow>
             (e, out1 @ out2, s', written))))"

section \<open>Reachable states\<close>

text \<open>
  The states a \<^verbatim>\<open>Restaurant\<close> can be in between calls of its public operations, with
  any arguments. \<open>P\<close> says which sources \<^verbatim>\<open>load_orders\<close> may be given. A call that raises
  leaves a state behind as well, which a caller that catches the exception goes on with.
\<close>

inductive reachable_by :: "(source \<Rightarrow> bool) \<Rightarrow> Restaurant \<Rightarrow> bool" for P :: "source \<Rightarrow> bool" where
  init: "reachable_by P Restaurant_init"
| menu_loaded: "reachable_by P s \<Longrightarrow> reachable_by P (snd (snd (restaurant_load_menu src s)))"
| created: "reachable_by P s \<Longrightarrow> reachable_by P (snd (snd (create_order t c s)))"
| added: "reachable_by P s \<Longrightarrow> reachable_by P (snd (add_to_order t n s))"
| removed: "reachable_by P s \<Longrightarrow> reachable_by P (snd (remove_from_order t n s))"
| cancelled: "reachable_by P s \<Longrightarrow> reachable_by P (snd (cancel_order t s))"
| restored: "reachable_by P s \<Longrightarrow> P src \<Longrightarrow> reachable_by P (snd (snd (load_orders src s)))"

text \<open>Every source is allowed.\<close>

definition reachable :: "Restaurant \<Rightarrow> bool" where
  "reachable s = reachable_by (\<lambda>src. True) s"

text \<open>
  A source names only tables of the universe when every record of its document that
  carries a hashable table number carries one equal to a member of the universe.
  A missing or undecodable file names no table.
\<close>

definition record_in_universe :: "json \<Rightarrow> bool" where
  "record_in_universe order_data =
     (case py_getitem order_data (ascii ''table_number'') of
        Inl e \<Rightarrow> True
      | Inr t \<Rightarrow>
          (case hash_key t of
             Inl e \<Rightarrow> True
           | Inr (KInt i) \<Rightarrow> i \<in> universe
           | Inr k \<Rightarrow> False))"

definition names_universe_only :: "source \<Rightarrow> bool" where
  "names_universe_only src =
     (case src of
        Parsed orders_data \<Rightarrow>
          (case py_iter orders_data of Inl e \<Rightarrow> True | Inr recs \<Rightarrow> list_all record_in_universe recs)
      | _ \<Rightarrow> True)"

text \<open>
  The invariant of the order book: occupied and free tables are disjoint and together
  are the universe.
\<close>

definition occupied :: "Restaurant \<Rightarrow> pykey set" where
  "occupied s = fst ` set (orders s)"

definition order_book_invariant :: "Restaurant \<Rightarrow> bool" where
  "order_book_invariant s =
     (occupied s \<inter> KInt ` available_tables s = {} \<and>
      occupied s \<union> KInt ` available_tables s = KInt ` universe)"

text \<open>
  Every entry of the dict is filed under the key its own table number hashes to, and
  no key occurs twice.
\<close>

definition keyed_by_table :: "(pykey \<times> Order) list \<Rightarrow> bool" where
  "keyed_by_table al =
     (distinct (map fst al) \<and> (\<forall>kv \<in> set al. hash_key (table_number (snd kv)) = Inr (fst kv)))"

section \<open>Example data\<close>

text \<open>
  The catalogue of the specification's end-to-end example, a third item for the
  example on removing lines, and the state after Alice, at table 1, has ordered tea.
\<close>

definition tea :: MenuItem where
  "tea = \<lparr>name = JStr (ascii ''Tea''), price = JInt 2, category = JStr (ascii ''Drinks'')\<rparr>"

definition soup :: MenuItem where
  "soup = \<lparr>name = JStr (ascii ''Soup''), price = JInt 5, category = JStr (ascii ''Starters'')\<rparr>"

definition cola :: MenuItem where
  "cola = \<lparr>name = JStr (ascii ''Cola''), price = JFloat (5 / 2), category = JStr (ascii ''Drinks'')\<rparr>"

definition example_menu :: json where
  "example_menu = JArr
     [JObj [(ascii ''name'', JStr (ascii ''Tea'')), (ascii ''price'', JInt 2), (ascii ''category'', JStr (ascii ''Drinks''))],
      JObj [(ascii ''name'', JStr (ascii ''Soup'')), (ascii ''price'', JInt 5), (ascii ''category'', JStr (ascii ''Starters''))]]"

definition example_state :: Restaurant where
  "example_state =
     snd (add_to_order 1 (ascii ''Tea'')
       (snd (snd (create_order 1 (ascii ''Alice'')
         (snd (snd (restaurant_load_menu (Parsed example_menu) Restaurant_init)))))))"

section \<open>Strings\<close>

text \<open>Two ASCII literals are the same \<^verbatim>\<open>str\<close> exactly when they are the same text.\<close>

lemma ascii_eq_iff [simp]: "ascii a = ascii b \<longleftrightarrow> a = b"
  by (simp add: ascii_def inj_map_eq_map inj_of_char)

lemma encodable_ascii [simp]: "encodable_str (ascii a)"
proof -
  have "of_char c < (55296 :: nat)" for c :: char
    by (rule less_trans [OF nat_of_char_less_256]) simp
  then show ?thesis
    by (simp add: encodable_str_def ascii_def list_all_iff)
qed

section \<open>Association lists as dicts\<close>

lemma map_of_Some_key: "map_of al k = Some v \<Longrightarrow> k \<in> fst ` set al"
  by (metis domI dom_map_of_conv_image_fst)

lemma keys_delete: "fst ` set (AList.delete k al) = fst ` set al - {k}"
proof -
  have "set (map fst (AList.delete k al)) = set (map fst al) - {k}"
    by (simp only: delete_keys set_removeAll)
  then show ?thesis by simp
qed

lemma set_update_subset: "set (AList.update k v al) \<subseteq> insert (k, v) (set al)"
  by (induction al) auto

lemma set_delete_subset: "set (AList.delete k al) \<subseteq> set al"
  by (auto simp: AList.delete_eq)

lemma update_new_key: "k \<notin> fst ` set al \<Longrightarrow> AList.update k v al = al @ [(k, v)]"
  by (induction al) auto

lemma count_list_filter: "P l \<Longrightarrow> count_list (filter P xs) l = count_list xs l"
  by (induction xs) auto

section \<open>The example state\<close>

lemma example_state_value:
  "example_state =
     \<lparr>menu = [tea, soup],
      orders = [(KInt 1, \<lparr>table_number = JInt 1, customer_name = JStr (ascii ''Alice''), items = [tea]\<rparr>)],
      available_tables = {2, 3, 4, 5}\<rparr>"
  by (simp add: example_state_def example_menu_def restaurant_load_menu_def load_menu_def
        menu_item_of_def Restaurant_init_def create_order_def new_order_def add_to_order_def
        add_item_def tea_def soup_def insert_Diff_if)

lemma example_state_reachable: "reachable_by P example_state"
  unfolding example_state_def
  by (intro reachable_by.added reachable_by.created reachable_by.menu_loaded reachable_by.init)

section \<open>What each operation does to the occupied and the free tables\<close>

lemma occupied_iff: "k \<in> occupied s \<longleftrightarrow> map_of (orders s) k \<noteq> None"
  by (simp add: occupied_def map_of_eq_None_iff)

lemma occupied_create:
  "occupied (snd (snd (create_order t c s))) =
     (if t \<in> available_tables s \<and> KInt t \<notin> occupied s then insert (KInt t) (occupied s) else occupied s)"
  by (simp add: create_order_def occupied_iff) (simp add: occupied_def dom_update)

lemma available_create:
  "available_tables (snd (snd (create_order t c s))) =
     (if t \<in> available_tables s \<and> KInt t \<notin> occupied s then available_tables s - {t} else available_tables s)"
  by (simp add: create_order_def occupied_iff)

lemma occupied_add: "occupied (snd (add_to_order t n s)) = occupied s"
  by (auto simp: add_to_order_def occupied_def dom_update
           split: option.splits dest: map_of_Some_key)

lemma available_add: "available_tables (snd (add_to_order t n s)) = available_tables s"
  by (simp add: add_to_order_def split: option.splits)

lemma occupied_remove: "occupied (snd (remove_from_order t n s)) = occupied s"
  by (auto simp: remove_from_order_def occupied_def dom_update
           split: option.splits dest: map_of_Some_key)

lemma available_remove: "available_tables (snd (remove_from_order t n s)) = available_tables s"
  by (simp add: remove_from_order_def split: option.splits)

lemma occupied_cancel: "occupied (snd (cancel_order t s)) = occupied s - {KInt t}"
  by (auto simp: cancel_order_def occupied_def keys_delete dom_update map_of_eq_None_iff
           split: option.splits)

lemma available_cancel:
  "available_tables (snd (cancel_order t s)) =
     (if KInt t \<in> occupied s then insert t (available_tables s) else available_tables s)"
  by (auto simp: cancel_order_def occupied_iff split: option.splits)

lemma occupied_load_menu: "occupied (snd (snd (restaurant_load_menu src s))) = occupied s"
  by (simp add: restaurant_load_menu_def occupied_def split: prod.splits)

lemma available_load_menu:
  "available_tables (snd (snd (restaurant_load_menu src s))) = available_tables s"
  by (simp add: restaurant_load_menu_def split: prod.splits)

lemma discard_others: "KInt ` set_discard k A = KInt ` A - {k}"
  by (cases k) auto

lemma load_orders_state:
  "snd (snd (load_orders src s)) =
     (case src of
        Parsed d \<Rightarrow> (case py_iter d of Inl e \<Rightarrow> s | Inr recs \<Rightarrow> snd (load_orders_loop recs s))
      | _ \<Rightarrow> s)"
  by (simp add: load_orders_def split: source.splits sum.splits prod.splits option.splits)

section \<open>Occupied and free tables never overlap\<close>

lemma loop_disjoint:
  "occupied s \<inter> KInt ` available_tables s = {} \<Longrightarrow>
   occupied (snd (load_orders_loop recs s)) \<inter> KInt ` available_tables (snd (load_orders_loop recs s)) = {}"
proof (induction recs arbitrary: s)
  case Nil
  then show ?case by simp
next
  case (Cons r recs)
  show ?case
  proof (cases "order_of_record r")
    case (Inl e)
    with Cons.prems show ?thesis by simp
  next
    case (Inr p)
    obtain k ord where p: "p = (k, ord)" by (cases p)
    let ?s' = "s\<lparr>orders := AList.update k ord (orders s),
                 available_tables := set_discard k (available_tables s)\<rparr>"
    have "occupied ?s' \<inter> KInt ` available_tables ?s' = {}"
      using Cons.prems by (auto simp: occupied_def dom_update discard_others)
    then have "occupied (snd (load_orders_loop recs ?s')) \<inter>
               KInt ` available_tables (snd (load_orders_loop recs ?s')) = {}"
      by (rule Cons.IH)
    with Inr p show ?thesis by simp
  qed
qed

lemma load_orders_disjoint:
  "occupied s \<inter> KInt ` available_tables s = {} \<Longrightarrow>
   occupied (snd (snd (load_orders src s))) \<inter> KInt ` available_tables (snd (snd (load_orders src s))) = {}"
  by (simp add: load_orders_state loop_disjoint split: source.splits sum.splits)

lemma reachable_by_disjoint:
  "reachable_by P s \<Longrightarrow> occupied s \<inter> KInt ` available_tables s = {}"
proof (induction rule: reachable_by.induct)
  case init
  show ?case by (simp add: Restaurant_init_def occupied_def)
next
  case (menu_loaded s src)
  then show ?case by (simp add: occupied_load_menu available_load_menu)
next
  case (created s t c)
  then show ?case by (auto simp: occupied_create available_create)
next
  case (added s t n)
  then show ?case by (simp add: occupied_add available_add)
next
  case (removed s t n)
  then show ?case by (simp add: occupied_remove available_remove)
next
  case (cancelled s t)
  then show ?case by (auto simp: occupied_cancel available_cancel)
next
  case (restored s src)
  then show ?case by (simp add: load_orders_disjoint)
qed

section \<open>Every table of the universe is occupied or free\<close>

lemma loop_covers:
  "KInt ` universe \<subseteq> occupied s \<union> KInt ` available_tables s \<Longrightarrow>
   KInt ` universe \<subseteq> occupied (snd (load_orders_loop recs s)) \<union>
                       KInt ` available_tables (snd (load_orders_loop recs s))"
proof (induction recs arbitrary: s)
  case Nil
  then show ?case by simp
next
  case (Cons r recs)
  show ?case
  proof (cases "order_of_record r")
    case (Inl e)
    with Cons.prems show ?thesis by simp
  next
    case (Inr p)
    obtain k ord where p: "p = (k, ord)" by (cases p)
    let ?s' = "s\<lparr>orders := AList.update k ord (orders s),
                 available_tables := set_discard k (available_tables s)\<rparr>"
    have o: "occupied ?s' = insert k (occupied s)"
      by (simp add: occupied_def dom_update)
    have a: "KInt ` available_tables ?s' = KInt ` available_tables s - {k}"
      by (simp add: discard_others)
    from Cons.prems have "KInt ` universe \<subseteq> occupied ?s' \<union> KInt ` available_tables ?s'"
      unfolding o a by blast
    then have "KInt ` universe \<subseteq> occupied (snd (load_orders_loop recs ?s')) \<union>
               KInt ` available_tables (snd (load_orders_loop recs ?s'))"
      by (rule Cons.IH)
    with Inr p show ?thesis by simp
  qed
qed

lemma load_orders_covers:
  "KInt ` universe \<subseteq> occupied s \<union> KInt ` available_tables s \<Longrightarrow>
   KInt ` universe \<subseteq> occupied (snd (snd (load_orders src s))) \<union>
                       KInt ` available_tables (snd (snd (load_orders src s)))"
  by (simp add: load_orders_state loop_covers split: source.splits sum.splits)

lemma reachable_by_covers:
  "reachable_by P s \<Longrightarrow> KInt ` universe \<subseteq> occupied s \<union> KInt ` available_tables s"
proof (induction rule: reachable_by.induct)
  case init
  show ?case by (simp add: Restaurant_init_def occupied_def universe_def)
next
  case (menu_loaded s src)
  then show ?case by (simp add: occupied_load_menu available_load_menu)
next
  case (created s t c)
  then show ?case by (auto simp: occupied_create available_create)
next
  case (added s t n)
  then show ?case by (simp add: occupied_add available_add)
next
  case (removed s t n)
  then show ?case by (simp add: occupied_remove available_remove)
next
  case (cancelled s t)
  then show ?case by (auto simp: occupied_cancel available_cancel)
next
  case (restored s src)
  from restored.IH show ?case by (rule load_orders_covers)
qed

section \<open>The invariant, when the restored files name tables of the universe only\<close>

lemma record_key_in_universe:
  "order_of_record r = Inr (k, ord) \<Longrightarrow> record_in_universe r \<Longrightarrow> k \<in> KInt ` universe"
  by (auto simp: order_of_record_def record_in_universe_def split: sum.splits pykey.splits)

lemma loop_invariant:
  "order_book_invariant s \<Longrightarrow> list_all record_in_universe recs \<Longrightarrow>
   order_book_invariant (snd (load_orders_loop recs s))"
proof (induction recs arbitrary: s)
  case Nil
  then show ?case by simp
next
  case (Cons r recs)
  show ?case
  proof (cases "order_of_record r")
    case (Inl e)
    with Cons.prems show ?thesis by simp
  next
    case (Inr p)
    obtain k ord where p: "p = (k, ord)" by (cases p)
    let ?s' = "s\<lparr>orders := AList.update k ord (orders s),
                 available_tables := set_discard k (available_tables s)\<rparr>"
    from Inr p Cons.prems have k: "k \<in> KInt ` universe"
      by (auto dest: record_key_in_universe)
    have o: "occupied ?s' = insert k (occupied s)"
      by (simp add: occupied_def dom_update)
    have a: "KInt ` available_tables ?s' = KInt ` available_tables s - {k}"
      by (simp add: discard_others)
    from Cons.prems(1) k have "order_book_invariant ?s'"
      unfolding order_book_invariant_def o a by blast
    moreover from Cons.prems have "list_all record_in_universe recs" by simp
    ultimately have "order_book_invariant (snd (load_orders_loop recs ?s'))"
      by (rule Cons.IH)
    with Inr p show ?thesis by simp
  qed
qed

lemma load_orders_invariant:
  "order_book_invariant s \<Longrightarrow> names_universe_only src \<Longrightarrow>
   order_book_invariant (snd (snd (load_orders src s)))"
  by (simp add: load_orders_state names_universe_only_def loop_invariant split: source.splits sum.splits)

lemma reachable_by_invariant:
  "reachable_by names_universe_only s \<Longrightarrow> order_book_invariant s"
proof (induction rule: reachable_by.induct)
  case init
  show ?case by (simp add: order_book_invariant_def Restaurant_init_def occupied_def universe_def)
next
  case (menu_loaded s src)
  then show ?case by (simp add: order_book_invariant_def occupied_load_menu available_load_menu)
next
  case (created s t c)
  then show ?case
    by (auto simp: order_book_invariant_def occupied_create available_create)
next
  case (added s t n)
  then show ?case by (simp add: order_book_invariant_def occupied_add available_add)
next
  case (removed s t n)
  then show ?case by (simp add: order_book_invariant_def occupied_remove available_remove)
next
  case (cancelled s t)
  then show ?case
    by (auto simp: order_book_invariant_def occupied_cancel available_cancel)
next
  case (restored s src)
  then show ?case by (simp add: load_orders_invariant)
qed

section \<open>Entries stay filed under their own table number\<close>

lemma keyed_update:
  "keyed_by_table al \<Longrightarrow> hash_key (table_number ord) = Inr k \<Longrightarrow> keyed_by_table (AList.update k ord al)"
  unfolding keyed_by_table_def
  using set_update_subset [of k ord al] by (auto simp: distinct_update)

lemma keyed_delete: "keyed_by_table al \<Longrightarrow> keyed_by_table (AList.delete k al)"
  unfolding keyed_by_table_def
  using set_delete_subset [of k al] by (auto simp: distinct_delete)

lemma keyed_lookup:
  "keyed_by_table al \<Longrightarrow> map_of al k = Some ord \<Longrightarrow> hash_key (table_number ord) = Inr k"
  unfolding keyed_by_table_def by (auto dest: map_of_SomeD)

lemma order_of_record_keyed:
  "order_of_record r = Inr (k, ord) \<Longrightarrow> hash_key (table_number ord) = Inr k"
  by (auto simp: order_of_record_def split: sum.splits)

lemma loop_keyed:
  "keyed_by_table (orders s) \<Longrightarrow> keyed_by_table (orders (snd (load_orders_loop recs s)))"
proof (induction recs arbitrary: s)
  case Nil
  then show ?case by simp
next
  case (Cons r recs)
  show ?case
  proof (cases "order_of_record r")
    case (Inl e)
    with Cons.prems show ?thesis by simp
  next
    case (Inr p)
    obtain k ord where p: "p = (k, ord)" by (cases p)
    let ?s' = "s\<lparr>orders := AList.update k ord (orders s),
                 available_tables := set_discard k (available_tables s)\<rparr>"
    from Inr p have "hash_key (table_number ord) = Inr k"
      by (simp add: order_of_record_keyed)
    with Cons.prems have "keyed_by_table (orders ?s')"
      by (simp add: keyed_update)
    then have "keyed_by_table (orders (snd (load_orders_loop recs ?s')))"
      by (rule Cons.IH)
    with Inr p show ?thesis by simp
  qed
qed

lemma reachable_by_keyed: "reachable_by P s \<Longrightarrow> keyed_by_table (orders s)"
proof (induction rule: reachable_by.induct)
  case init
  show ?case by (simp add: Restaurant_init_def keyed_by_table_def)
next
  case (menu_loaded s src)
  then show ?case by (simp add: restaurant_load_menu_def split: prod.splits)
next
  case (created s t c)
  then show ?case by (simp add: create_order_def keyed_update new_order_def)
next
  case (added s t n)
  then show ?case
    by (auto simp: add_to_order_def add_item_def split: option.splits
          intro!: keyed_update dest: keyed_lookup)
next
  case (removed s t n)
  then show ?case
    by (auto simp: remove_from_order_def remove_item_def split: option.splits
          intro!: keyed_update dest: keyed_lookup)
next
  case (cancelled s t)
  then show ?case
    by (auto simp: cancel_order_def clear_order_def split: option.splits
          intro!: keyed_update keyed_delete dest: keyed_lookup)
next
  case (restored s src)
  then show ?case
    by (simp add: load_orders_state loop_keyed split: source.splits sum.splits)
qed

section \<open>Reading back what was written\<close>

lemma menu_item_roundtrip: "menu_item_of (item_to_dict i) = Inr i"
  by (simp add: menu_item_of_def item_to_dict_def)

lemma menu_items_roundtrip: "menu_items_of (map item_to_dict is) = Inr is"
  by (induction "is") (simp_all add: menu_item_roundtrip)

lemma order_roundtrip:
  "hash_key (table_number ord) = Inr k \<Longrightarrow> order_of_record (to_dict ord) = Inr (k, ord)"
  by (simp add: order_of_record_def to_dict_def menu_items_roundtrip)

lemma loop_roundtrip:
  "keyed_by_table (orders s @ al) \<Longrightarrow>
   load_orders_loop (map (\<lambda>kv. to_dict (snd kv)) al) s =
     (None, s\<lparr>orders := orders s @ al,
              available_tables := fold set_discard (map fst al) (available_tables s)\<rparr>)"
proof (induction al arbitrary: s)
  case Nil
  show ?case by simp
next
  case (Cons kv al)
  obtain k ord where kv: "kv = (k, ord)" by (cases kv)
  let ?s' = "s\<lparr>orders := AList.update k ord (orders s),
               available_tables := set_discard k (available_tables s)\<rparr>"
  from Cons.prems kv have h: "hash_key (table_number ord) = Inr k"
    by (simp add: keyed_by_table_def)
  from Cons.prems kv have "k \<notin> fst ` set (orders s)"
    by (auto simp: keyed_by_table_def)
  then have u: "AList.update k ord (orders s) = orders s @ [(k, ord)]"
    by (rule update_new_key)
  with Cons.prems kv have "keyed_by_table (orders ?s' @ al)"
    by simp
  then have "load_orders_loop (map (\<lambda>kv. to_dict (snd kv)) al) ?s' =
     (None, ?s'\<lparr>orders := orders ?s' @ al,
              available_tables := fold set_discard (map fst al) (available_tables ?s')\<rparr>)"
    by (rule Cons.IH)
  with h u kv show ?case
    by (simp add: order_roundtrip)
qed

lemma fold_discard: "fold set_discard ks A = A - {t. KInt t \<in> set ks}"
proof (induction ks arbitrary: A)
  case Nil
  show ?case by simp
next
  case (Cons k ks)
  show ?case
    by (cases k) (auto simp: Cons.IH)
qed

text \<open>\<^verbatim>\<open>save_orders\<close> returns exactly when nothing fails and every string can be encoded.\<close>

lemma save_orders_completes:
  "fst (save_orders fault s) = None \<longleftrightarrow> fault = None \<and> encodable (orders_document s)"
  by (simp add: save_orders_def split: option.splits)

section \<open>Creating and cancelling, looking items up\<close>





text \<open>
  In no reachable state does \<^verbatim>\<open>create_order\<close> print that the table is taken: a taken
  table is not in \<^verbatim>\<open>available_tables\<close>, so the test of line 127 answers first.
\<close>

lemma create_order_never_says_occupied:
  "reachable s \<Longrightarrow> TableOccupied t' \<notin> set (fst (snd (create_order t c s)))"
proof -
  assume "reachable s"
  then have "occupied s \<inter> KInt ` available_tables s = {}"
    unfolding reachable_def by (rule reachable_by_disjoint)
  then have "t \<in> available_tables s \<Longrightarrow> map_of (orders s) (KInt t) = None"
    using occupied_iff [of "KInt t" s] by blast
  then show ?thesis
    by (auto simp: create_order_def)
qed

text \<open>
  The wizard does tell the two causes apart (lines 256-260), and it rejects a table
  number that is not a number (lines 249-253).
\<close>

lemma wizard_tells_occupied:
  "py_int typed = Some t \<Longrightarrow> t \<notin> available_tables s \<Longrightarrow> map_of (orders s) (KInt t) \<noteq> None \<Longrightarrow>
   wizard_read_table typed s = (show_available_tables s @ [TableOccupied t], None)"
  by (simp add: wizard_read_table_def)

lemma wizard_rejects_unparsable:
  "py_int typed = None \<Longrightarrow>
   wizard_read_table typed s = (show_available_tables s @ [TableMustBeNumber], None)"
  by (simp add: wizard_read_table_def)

section \<open>The claims\<close>

subsection \<open>C1: the invariant of the order book\<close>

text \<open>
  Claim C1, as amended. In every state reached from the initial one by the public
  operations (loading the menu, creating, adding, removing, cancelling, restoring), with
  any arguments and any restored source, the occupied tables and \<^verbatim>\<open>available_tables\<close>
  are disjoint, and every table of the universe \<open>{1,...,5}\<close> is one or the other. When
  moreover every restored source names tables of the universe only, the two together are
  exactly the universe, and nothing outside the universe is a key of \<^verbatim>\<open>orders\<close> or a
  member of \<^verbatim>\<open>available_tables\<close>.
\<close>

theorem order_book_invariant_holds:
  "(reachable s \<longrightarrow>
      occupied s \<inter> KInt ` available_tables s = {} \<and>
      KInt ` universe \<subseteq> occupied s \<union> KInt ` available_tables s) \<and>
   (reachable_by names_universe_only s \<longrightarrow>
      occupied s \<union> KInt ` available_tables s = KInt ` universe \<and>
      (\<forall>k. k \<notin> KInt ` universe \<longrightarrow> k \<notin> occupied s) \<and>
      (\<forall>t. t \<notin> universe \<longrightarrow> t \<notin> available_tables s))"
proof (intro conjI impI)
  assume r: "reachable s"
  then show "occupied s \<inter> KInt ` available_tables s = {}"
    unfolding reachable_def by (rule reachable_by_disjoint)
  from r show "KInt ` universe \<subseteq> occupied s \<union> KInt ` available_tables s"
    unfolding reachable_def by (rule reachable_by_covers)
next
  assume "reachable_by names_universe_only s"
  then have i: "order_book_invariant s" by (rule reachable_by_invariant)
  then show "occupied s \<union> KInt ` available_tables s = KInt ` universe"
    by (simp add: order_book_invariant_def)
  from i show "\<forall>k. k \<notin> KInt ` universe \<longrightarrow> k \<notin> occupied s"
    by (auto simp: order_book_invariant_def)
  from i show "\<forall>t. t \<notin> universe \<longrightarrow> t \<notin> available_tables s"
    by (auto simp: order_book_invariant_def)
qed

text \<open>
  The theorem at two states. After a file with an order for table 7 has been restored
  into the initial state, table 7 is occupied, the five tables are free, and the two
  sets are disjoint. After an order for table 1 has been created and a file with an
  order for table 2 restored, tables 1 and 2 are occupied, 3 to 5 are free, and 7 is
  not a key.
\<close>

theorem order_book_invariant_holds_witness:
  "reachable (snd (snd (load_orders
      (Parsed (JArr [JObj [(ascii ''table_number'', JInt 7), (ascii ''customer_name'', JStr (ascii ''Bob'')), (ascii ''items'', JArr [])]]))
      Restaurant_init))) \<and>
   occupied (snd (snd (load_orders
      (Parsed (JArr [JObj [(ascii ''table_number'', JInt 7), (ascii ''customer_name'', JStr (ascii ''Bob'')), (ascii ''items'', JArr [])]]))
      Restaurant_init))) = {KInt 7} \<and>
   available_tables (snd (snd (load_orders
      (Parsed (JArr [JObj [(ascii ''table_number'', JInt 7), (ascii ''customer_name'', JStr (ascii ''Bob'')), (ascii ''items'', JArr [])]]))
      Restaurant_init))) = {1, 2, 3, 4, 5} \<and>
   occupied (snd (snd (load_orders
      (Parsed (JArr [JObj [(ascii ''table_number'', JInt 7), (ascii ''customer_name'', JStr (ascii ''Bob'')), (ascii ''items'', JArr [])]]))
      Restaurant_init))) \<inter> KInt ` available_tables (snd (snd (load_orders
      (Parsed (JArr [JObj [(ascii ''table_number'', JInt 7), (ascii ''customer_name'', JStr (ascii ''Bob'')), (ascii ''items'', JArr [])]]))
      Restaurant_init))) = {} \<and>
   reachable_by names_universe_only (snd (snd (load_orders
      (Parsed (JArr [JObj [(ascii ''table_number'', JInt 2), (ascii ''customer_name'', JStr (ascii ''Bob'')), (ascii ''items'', JArr [])]]))
      (snd (snd (create_order 1 (ascii ''Alice'') Restaurant_init)))))) \<and>
   occupied (snd (snd (load_orders
      (Parsed (JArr [JObj [(ascii ''table_number'', JInt 2), (ascii ''customer_name'', JStr (ascii ''Bob'')), (ascii ''items'', JArr [])]]))
      (snd (snd (create_order 1 (ascii ''Alice'') Restaurant_init)))))) = {KInt 1, KInt 2} \<and>
   available_tables (snd (snd (load_orders
      (Parsed (JArr [JObj [(ascii ''table_number'', JInt 2), (ascii ''customer_name'', JStr (ascii ''Bob'')), (ascii ''items'', JArr [])]]))
      (snd (snd (create_order 1 (ascii ''Alice'') Restaurant_init)))))) = {3, 4, 5} \<and>
   KInt 7 \<notin> occupied (snd (snd (load_orders
      (Parsed (JArr [JObj [(ascii ''table_number'', JInt 2), (ascii ''customer_name'', JStr (ascii ''Bob'')), (ascii ''items'', JArr [])]]))
      (snd (snd (create_order 1 (ascii ''Alice'') Restaurant_init))))))"
proof -
  let ?s7 = "snd (snd (load_orders
      (Parsed (JArr [JObj [(ascii ''table_number'', JInt 7), (ascii ''customer_name'', JStr (ascii ''Bob'')), (ascii ''items'', JArr [])]]))
      Restaurant_init))"
  let ?src = "Parsed (JArr [JObj [(ascii ''table_number'', JInt 2), (ascii ''customer_name'', JStr (ascii ''Bob'')), (ascii ''items'', JArr [])]])"
  let ?s = "snd (snd (load_orders ?src (snd (snd (create_order 1 (ascii ''Alice'') Restaurant_init)))))"
  have r7: "reachable ?s7"
    unfolding reachable_def
    by (rule reachable_by.restored [OF reachable_by.init]) simp
  have o7: "occupied ?s7 = {KInt 7}"
    by (simp add: load_orders_def order_of_record_def Restaurant_init_def occupied_def)
  have a7: "available_tables ?s7 = {1, 2, 3, 4, 5}"
    by (simp add: load_orders_def order_of_record_def Restaurant_init_def)
  from order_book_invariant_holds [of ?s7] r7
  have d7: "occupied ?s7 \<inter> KInt ` available_tables ?s7 = {}"
    by blast
  have p: "names_universe_only ?src"
    by (simp add: names_universe_only_def record_in_universe_def universe_def)
  have "reachable_by names_universe_only (snd (snd (create_order 1 (ascii ''Alice'') Restaurant_init)))"
    by (rule reachable_by.created [OF reachable_by.init])
  then have r: "reachable_by names_universe_only ?s"
    using p by (rule reachable_by.restored)
  have o: "occupied ?s = {KInt 1, KInt 2}"
    by (auto simp: load_orders_def order_of_record_def Restaurant_init_def occupied_def
          create_order_def)
  have a: "available_tables ?s = {3, 4, 5}"
    by (auto simp: load_orders_def order_of_record_def Restaurant_init_def create_order_def)
  have "KInt 7 \<notin> KInt ` universe"
    by (simp add: universe_def)
  with order_book_invariant_holds [of ?s] r have "KInt 7 \<notin> occupied ?s"
    by blast
  with r7 o7 a7 d7 r o a show ?thesis by simp
qed

text \<open>
  The claim as stated fails: \<^verbatim>\<open>load_orders\<close> stores whatever table number a record
  carries. Restoring a file with an order for table 7 into the initial state makes 7 a
  key of \<^verbatim>\<open>orders\<close>, so the occupied and the free tables together are more than the
  universe.
\<close>

theorem restore_foreign_table_breaks_invariant:
  "reachable (snd (snd (load_orders
      (Parsed (JArr [JObj [(ascii ''table_number'', JInt 7), (ascii ''customer_name'', JStr (ascii ''Bob'')), (ascii ''items'', JArr [])]]))
      Restaurant_init))) \<and>
   7 \<notin> universe \<and>
   occupied (snd (snd (load_orders
      (Parsed (JArr [JObj [(ascii ''table_number'', JInt 7), (ascii ''customer_name'', JStr (ascii ''Bob'')), (ascii ''items'', JArr [])]]))
      Restaurant_init))) = {KInt 7} \<and>
   \<not> order_book_invariant (snd (snd (load_orders
      (Parsed (JArr [JObj [(ascii ''table_number'', JInt 7), (ascii ''customer_name'', JStr (ascii ''Bob'')), (ascii ''items'', JArr [])]]))
      Restaurant_init)))"
proof -
  let ?s = "snd (snd (load_orders
      (Parsed (JArr [JObj [(ascii ''table_number'', JInt 7), (ascii ''customer_name'', JStr (ascii ''Bob'')), (ascii ''items'', JArr [])]]))
      Restaurant_init))"
  have r: "reachable ?s"
    unfolding reachable_def
    by (rule reachable_by.restored [OF reachable_by.init]) simp
  have o: "occupied ?s = {KInt 7}"
    by (simp add: load_orders_def order_of_record_def Restaurant_init_def occupied_def)
  have u: "7 \<notin> universe"
    by (simp add: universe_def)
  have "KInt 7 \<notin> KInt ` universe"
    by (simp add: universe_def)
  with o have "\<not> order_book_invariant ?s"
    unfolding order_book_invariant_def by blast
  with r o u show ?thesis by simp
qed

subsection \<open>C2: persist, then restore\<close>

text \<open>
  Claim C2, as amended. For every reachable state on which \<^verbatim>\<open>save_orders\<close> returns
  without raising, the file holds the document of the orders, and restoring that
  document, read back as written, into a freshly constructed \<^verbatim>\<open>Restaurant\<close> returns
  normally and yields the same \<^verbatim>\<open>orders\<close> (the same keys in the same order, each with
  the same table number, customer name and items) and the universe minus the occupied
  tables as \<^verbatim>\<open>available_tables\<close>.
\<close>

theorem persist_restore_roundtrip:
  "reachable s \<Longrightarrow> save_orders fault s = (None, out, written) \<Longrightarrow>
     out = [OrdersSaved] \<and> written = Some (orders_document s) \<and>
     load_orders (Parsed (orders_document s)) Restaurant_init =
       (None, [OrdersLoaded],
        Restaurant_init\<lparr>orders := orders s,
                        available_tables := universe - {t. KInt t \<in> occupied s}\<rparr>)"
proof -
  assume r: "reachable s" and w: "save_orders fault s = (None, out, written)"
  from w have "fst (save_orders fault s) = None"
    by simp
  then have "fault = None \<and> encodable (orders_document s)"
    by (simp only: save_orders_completes)
  with w have ow: "out = [OrdersSaved] \<and> written = Some (orders_document s)"
    by (auto simp: save_orders_def)
  from r have "keyed_by_table (orders s)"
    unfolding reachable_def by (rule reachable_by_keyed)
  then have "keyed_by_table (orders Restaurant_init @ orders s)"
    by (simp add: Restaurant_init_def)
  then have "load_orders_loop (map (\<lambda>kv. to_dict (snd kv)) (orders s)) Restaurant_init =
     (None, Restaurant_init\<lparr>orders := orders Restaurant_init @ orders s,
              available_tables := fold set_discard (map fst (orders s)) (available_tables Restaurant_init)\<rparr>)"
    by (rule loop_roundtrip)
  moreover have "orders Restaurant_init = []" and "available_tables Restaurant_init = universe"
    by (simp_all add: Restaurant_init_def universe_def)
  ultimately have "load_orders (Parsed (orders_document s)) Restaurant_init =
       (None, [OrdersLoaded],
        Restaurant_init\<lparr>orders := orders s,
                        available_tables := universe - {t. KInt t \<in> occupied s}\<rparr>)"
    by (simp add: load_orders_def orders_document_def fold_discard occupied_def)
  with ow show ?thesis by simp
qed

text \<open>The theorem at the example state: the document written and the state restored.\<close>

theorem persist_restore_roundtrip_witness:
  "reachable example_state \<and>
   save_orders None example_state =
     (None, [OrdersSaved],
      Some (JArr [JObj [(ascii ''table_number'', JInt 1), (ascii ''customer_name'', JStr (ascii ''Alice'')),
        (ascii ''items'', JArr [JObj [(ascii ''name'', JStr (ascii ''Tea'')), (ascii ''price'', JInt 2),
                                      (ascii ''category'', JStr (ascii ''Drinks''))]])]])) \<and>
   load_orders (Parsed (orders_document example_state)) Restaurant_init =
     (None, [OrdersLoaded],
      \<lparr>menu = [],
       orders = [(KInt 1, \<lparr>table_number = JInt 1, customer_name = JStr (ascii ''Alice''), items = [tea]\<rparr>)],
       available_tables = {2, 3, 4, 5}\<rparr>)"
proof -
  have r: "reachable example_state"
    unfolding reachable_def by (rule example_state_reachable)
  have d: "orders_document example_state =
      JArr [JObj [(ascii ''table_number'', JInt 1), (ascii ''customer_name'', JStr (ascii ''Alice'')),
        (ascii ''items'', JArr [JObj [(ascii ''name'', JStr (ascii ''Tea'')), (ascii ''price'', JInt 2),
                                      (ascii ''category'', JStr (ascii ''Drinks''))]])]]"
    by (simp add: example_state_value orders_document_def to_dict_def item_to_dict_def tea_def)
  have e: "encodable (orders_document example_state)"
    by (simp add: d)
  then have w: "save_orders None example_state = (None, [OrdersSaved], Some (orders_document example_state))"
    by (simp add: save_orders_def)
  have "universe - {t. KInt t \<in> occupied example_state} = {2, 3, 4, 5}"
    by (auto simp: example_state_value occupied_def universe_def)
  with persist_restore_roundtrip [OF r w] r w d show ?thesis
    by (simp add: example_state_value Restaurant_init_def)
qed

text \<open>
  The claim as stated fails: \<^verbatim>\<open>save_orders\<close> writes strings as they are into a UTF-8
  file. After a file whose customer name is the escape \<^verbatim>\<open>\ud83d\<close> has been restored,
  \<^verbatim>\<open>save_orders\<close> raises \<^verbatim>\<open>UnicodeEncodeError\<close> and no document is written that could be
  restored.
\<close>

theorem lone_surrogate_stops_persist:
  "reachable (snd (snd (load_orders
      (Parsed (JArr [JObj [(ascii ''table_number'', JInt 1), (ascii ''customer_name'', JStr [55357]), (ascii ''items'', JArr [])]]))
      Restaurant_init))) \<and>
   orders (snd (snd (load_orders
      (Parsed (JArr [JObj [(ascii ''table_number'', JInt 1), (ascii ''customer_name'', JStr [55357]), (ascii ''items'', JArr [])]]))
      Restaurant_init)))
     = [(KInt 1, \<lparr>table_number = JInt 1, customer_name = JStr [55357], items = []\<rparr>)] \<and>
   save_orders None (snd (snd (load_orders
      (Parsed (JArr [JObj [(ascii ''table_number'', JInt 1), (ascii ''customer_name'', JStr [55357]), (ascii ''items'', JArr [])]]))
      Restaurant_init))) = (Some UnicodeEncodeError, [], None)"
proof -
  let ?s = "snd (snd (load_orders
      (Parsed (JArr [JObj [(ascii ''table_number'', JInt 1), (ascii ''customer_name'', JStr [55357]), (ascii ''items'', JArr [])]]))
      Restaurant_init))"
  have r: "reachable ?s"
    unfolding reachable_def
    by (rule reachable_by.restored [OF reachable_by.init]) simp
  have o: "orders ?s = [(KInt 1, \<lparr>table_number = JInt 1, customer_name = JStr [55357], items = []\<rparr>)]"
    by (simp add: load_orders_def order_of_record_def Restaurant_init_def)
  have "\<not> encodable (orders_document ?s)"
    by (simp add: o orders_document_def to_dict_def encodable_str_def)
  then have "save_orders None ?s = (Some UnicodeEncodeError, [], None)"
    by (simp add: save_orders_def)
  with r o show ?thesis by simp
qed

subsection \<open>C3: create, then cancel\<close>



subsection \<open>C4: the two failures of create_order\<close>

text \<open>
  Claim C4 asks \<^verbatim>\<open>create_order\<close> to answer an occupied table with the message that the
  table is taken. The code answers that the table does not exist: after Alice has
  taken table 1, a second \<^verbatim>\<open>create_order\<close> for table 1 fails at the test of line 127,
  because an occupied table has left \<^verbatim>\<open>available_tables\<close>; the branch of lines 131-133
  is never reached.
\<close>

theorem create_order_occupied_says_not_exist:
  "create_order 1 (ascii ''Bob'') (snd (snd (create_order 1 (ascii ''Alice'') Restaurant_init))) =
     (False, [TableNotExist 1], snd (snd (create_order 1 (ascii ''Alice'') Restaurant_init))) \<and>
   map_of (orders (snd (snd (create_order 1 (ascii ''Alice'') Restaurant_init)))) (KInt 1) \<noteq> None"
  by (simp add: create_order_def Restaurant_init_def)

subsection \<open>C5: sources that cannot be read\<close>

text \<open>
  Claim C5, as amended. When the file is missing (\<^verbatim>\<open>FileNotFoundError\<close>) or its
  content is text that the JSON parser rejects (\<^verbatim>\<open>json.JSONDecodeError\<close>),
  \<^verbatim>\<open>Menu.load_menu\<close>, \<^verbatim>\<open>Restaurant.load_menu\<close> and \<^verbatim>\<open>load_orders\<close> return without
  raising, print one message and leave the menu, \<^verbatim>\<open>orders\<close> and \<^verbatim>\<open>available_tables\<close>
  as they were.
\<close>

theorem unreadable_source_leaves_state:
  "src = FileNotFound \<or> src = DecodeError \<Longrightarrow>
     (\<exists>m. load_menu src mn = (None, [m], mn)) \<and>
     (\<exists>m. restaurant_load_menu src s = (None, [m], s)) \<and>
     (\<exists>m. load_orders src s = (None, [m], s))"
  by (auto simp: load_menu_def restaurant_load_menu_def load_orders_def)

text \<open>The theorem at a file whose text the parser rejects, with a menu and orders in place.\<close>

theorem unreadable_source_leaves_state_witness:
  "load_menu DecodeError [tea, soup] = (None, [MenuReadError], [tea, soup]) \<and>
   restaurant_load_menu DecodeError example_state = (None, [MenuReadError], example_state) \<and>
   load_orders DecodeError example_state = (None, [OrdersReadError], example_state)"
  using unreadable_source_leaves_state [of DecodeError "[tea, soup]" example_state]
  by (simp add: load_menu_def restaurant_load_menu_def load_orders_def)

text \<open>
  The claim as stated fails on other malformed content, because only
  \<^verbatim>\<open>FileNotFoundError\<close> and \<^verbatim>\<open>json.JSONDecodeError\<close> are caught. Content that is JSON of
  the wrong shape: a menu item without a price raises \<^verbatim>\<open>KeyError\<close>; an orders file
  whose second record is a number raises \<^verbatim>\<open>TypeError\<close> after the first record has been
  loaded. Content that is not UTF-8 raises \<^verbatim>\<open>UnicodeDecodeError\<close>, and content nested
  too deep raises \<^verbatim>\<open>RecursionError\<close>.
\<close>

theorem ill_shaped_document_raises:
  "load_menu (Parsed (JArr [JObj [(ascii ''name'', JStr (ascii ''Tea''))]])) [] = (Some (KeyError (ascii ''price'')), [], []) \<and>
   load_orders (Parsed (JArr [JObj [(ascii ''table_number'', JInt 1), (ascii ''customer_name'', JStr (ascii ''Alice'')), (ascii ''items'', JArr [])], JInt 5])) Restaurant_init
     = (Some TypeError, [],
        \<lparr>menu = [], orders = [(KInt 1, \<lparr>table_number = JInt 1, customer_name = JStr (ascii ''Alice''), items = []\<rparr>)],
         available_tables = {2, 3, 4, 5}\<rparr>) \<and>
   load_menu (Raises UnicodeDecodeError) [] = (Some UnicodeDecodeError, [], []) \<and>
   load_orders (Raises RecursionError) Restaurant_init = (Some RecursionError, [], Restaurant_init)"
  by (simp add: load_menu_def menu_item_of_def load_orders_def order_of_record_def Restaurant_init_def insert_Diff_if)

subsection \<open>C6: a failing create_order changes nothing\<close>

text \<open>
  Claim C6, as amended. In every state, \<^verbatim>\<open>create_order\<close> on an occupied table returns
  \<open>False\<close> and leaves the whole state as it was. In every state reached by the public
  operations where every restored source names tables of the universe only,
  \<^verbatim>\<open>create_order\<close> on a table outside the universe returns \<open>False\<close> and leaves the whole
  state as it was.
\<close>

theorem create_order_failures_keep_state:
  "(map_of (orders s) (KInt t) \<noteq> None \<longrightarrow> (\<exists>m. create_order t c s = (False, [m], s))) \<and>
   (reachable_by names_universe_only s \<and> t \<notin> universe \<longrightarrow>
      create_order t c s = (False, [TableNotExist t], s))"
proof (intro conjI impI)
  assume "map_of (orders s) (KInt t) \<noteq> None"
  then show "\<exists>m. create_order t c s = (False, [m], s)"
    by (simp add: create_order_def)
next
  assume a: "reachable_by names_universe_only s \<and> t \<notin> universe"
  then have "order_book_invariant s"
    by (simp add: reachable_by_invariant)
  with a have "t \<notin> available_tables s"
    by (auto simp: order_book_invariant_def)
  then show "create_order t c s = (False, [TableNotExist t], s)"
    by (simp add: create_order_def)
qed

text \<open>The theorem after Alice has taken table 1: table 1 is occupied, table 9 does not exist.\<close>

theorem create_order_failures_keep_state_witness:
  "reachable_by names_universe_only (snd (snd (create_order 1 (ascii ''Alice'') Restaurant_init))) \<and>
   map_of (orders (snd (snd (create_order 1 (ascii ''Alice'') Restaurant_init)))) (KInt 1) \<noteq> None \<and>
   9 \<notin> universe \<and>
   (\<exists>m. create_order 1 (ascii ''Bob'') (snd (snd (create_order 1 (ascii ''Alice'') Restaurant_init)))
      = (False, [m], snd (snd (create_order 1 (ascii ''Alice'') Restaurant_init)))) \<and>
   create_order 9 (ascii ''Bob'') (snd (snd (create_order 1 (ascii ''Alice'') Restaurant_init)))
      = (False, [TableNotExist 9], snd (snd (create_order 1 (ascii ''Alice'') Restaurant_init)))"
proof -
  let ?s = "snd (snd (create_order 1 (ascii ''Alice'') Restaurant_init))"
  have r: "reachable_by names_universe_only ?s"
    by (rule reachable_by.created [OF reachable_by.init])
  have o: "map_of (orders ?s) (KInt 1) \<noteq> None"
    by (simp add: create_order_def Restaurant_init_def)
  have u: "9 \<notin> universe"
    by (simp add: universe_def)
  from create_order_failures_keep_state [of ?s 1 "ascii ''Bob''"]
       create_order_failures_keep_state [of ?s 9 "ascii ''Bob''"] r o u
  show ?thesis by simp
qed

text \<open>
  The claim as stated fails for a table outside the universe: once a file with an order
  for table 7 has been restored and that order cancelled, table 7 is in
  \<^verbatim>\<open>available_tables\<close> and \<^verbatim>\<open>create_order\<close> for it succeeds.
\<close>

theorem foreign_table_becomes_creatable:
  "reachable (snd (cancel_order 7 (snd (snd (load_orders
      (Parsed (JArr [JObj [(ascii ''table_number'', JInt 7), (ascii ''customer_name'', JStr (ascii ''Bob'')), (ascii ''items'', JArr [])]]))
      Restaurant_init))))) \<and>
   7 \<notin> universe \<and>
   create_order 7 (ascii ''Eve'') (snd (cancel_order 7 (snd (snd (load_orders
      (Parsed (JArr [JObj [(ascii ''table_number'', JInt 7), (ascii ''customer_name'', JStr (ascii ''Bob'')), (ascii ''items'', JArr [])]]))
      Restaurant_init)))))
    = (True, [OrderCreated 7 (ascii ''Eve'')],
       \<lparr>menu = [], orders = [(KInt 7, \<lparr>table_number = JInt 7, customer_name = JStr (ascii ''Eve''), items = []\<rparr>)],
        available_tables = {1, 2, 3, 4, 5}\<rparr>)"
proof -
  have "reachable (snd (cancel_order 7 (snd (snd (load_orders
      (Parsed (JArr [JObj [(ascii ''table_number'', JInt 7), (ascii ''customer_name'', JStr (ascii ''Bob'')), (ascii ''items'', JArr [])]]))
      Restaurant_init)))))"
    unfolding reachable_def
    by (rule reachable_by.cancelled [OF reachable_by.restored [OF reachable_by.init]]) simp
  then show ?thesis
    by (simp add: universe_def load_orders_def order_of_record_def Restaurant_init_def
          cancel_order_def create_order_def new_order_def clear_order_def insert_Diff_if)
qed

subsection \<open>C7: remove_item removes every line of that name\<close>

text \<open>
  Claim C7. After \<^verbatim>\<open>remove_item\<close> no line of the order has the given name; the lines
  left are a subsequence of the lines before, so their relative order is kept; every line
  of another name is there as often as before; table number and customer are untouched.
\<close>

theorem remove_item_removes_all:
  "(\<forall>l \<in> set (items (remove_item n ord)). name l \<noteq> JStr n) \<and>
   subseq (items (remove_item n ord)) (items ord) \<and>
   (\<forall>l. name l \<noteq> JStr n \<longrightarrow> count_list (items (remove_item n ord)) l = count_list (items ord) l) \<and>
   table_number (remove_item n ord) = table_number ord \<and>
   customer_name (remove_item n ord) = customer_name ord"
  by (simp add: remove_item_def count_list_filter)

text \<open>The theorem at an order with two colas: both go, tea and soup stay in their order.\<close>

theorem remove_item_removes_all_witness:
  "cola \<in> set (items \<lparr>table_number = JInt 1, customer_name = JStr (ascii ''Alice''), items = [cola, tea, cola, soup]\<rparr>) \<and>
   items (remove_item (ascii ''Cola'') \<lparr>table_number = JInt 1, customer_name = JStr (ascii ''Alice''), items = [cola, tea, cola, soup]\<rparr>) = [tea, soup] \<and>
   tea \<in> set (items (remove_item (ascii ''Cola'') \<lparr>table_number = JInt 1, customer_name = JStr (ascii ''Alice''), items = [cola, tea, cola, soup]\<rparr>)) \<and>
   name tea \<noteq> JStr (ascii ''Cola'') \<and>
   count_list (items (remove_item (ascii ''Cola'') \<lparr>table_number = JInt 1, customer_name = JStr (ascii ''Alice''), items = [cola, tea, cola, soup]\<rparr>)) tea = 1"
  using remove_item_removes_all [of "ascii ''Cola''" "\<lparr>table_number = JInt 1, customer_name = JStr (ascii ''Alice''), items = [cola, tea, cola, soup]\<rparr>"]
  by (simp add: remove_item_def tea_def soup_def cola_def)

subsection \<open>C8: add_to_order\<close>



subsection \<open>C9: a table number that is not a number\<close>

text \<open>
  Claim C9 asks every point that reads a table number to reject text that is not a
  number with a message and without an uncaught exception. Choice 4 of \<^verbatim>\<open>main\<close> does
  not: on the text \<^verbatim>\<open>abc\<close> the \<^verbatim>\<open>ValueError\<close> of \<^verbatim>\<open>int\<close> leaves \<^verbatim>\<open>main\<close>, no message is
  printed and nothing is saved. The state is as it was.
\<close>

theorem main_choice_4_unparsable_raises:
  "main_choice_4 fault ''abc'' s = (Some ValueError, [], s, None)"
  by (simp add: main_choice_4_def py_int_def py_strip_def is_py_space_def digit_of_def
        max_str_digits_def)

subsection \<open>C10: remove_from_order always reports a removal\<close>



end
